theory Spec2Isabelle
  imports Main
begin

section \<open>JavaScript values and plain objects\<close>

text \<open>
  The values the adapter moves around: attribute values are strings, numbers, booleans,
  \<open>undefined\<close> or \<open>null\<close>; property values are arbitrary (\<open>unknown\<close>), among them
  decoded JSON structures and React elements (the \<open>children\<close> of a provider).
  The code never computes with a number, it only stores and copies it, so numbers are
  integers here. A component reference (\<open>React.ComponentType\<close>) is opaque to the code:
  it is the type parameter \<open>'c\<close>. The type of an element is a component reference, the
  constant function \<open>() => comp\<close> that normalisation builds from a bare element, or
  \<open>undefined\<close>.
\<close>

datatype 'c jsvalue =
    JUndefined
  | JNull
  | JBool bool
  | JNum int
  | JStr string
  | JArray "'c jsvalue list"
  | JObject "(string \<times> 'c jsvalue) list"
  | JElement "'c elementType" "(string \<times> 'c jsvalue) list"
and 'c elementType =
    UndefinedType
  | ComponentType 'c
  | ElementThunk "'c jsvalue"

text \<open>
  A plain object is the list of its own enumerable properties in the order
  \<open>Object.keys\<close> lists them. \<open>objGet\<close> is the read \<open>o[key]\<close> of an own property
  (\<open>undefined\<close> when there is none), \<open>objDefine\<close> is the definition of a property by an
  object literal or a spread (\<open>{...o, key: v}\<close>), and \<open>objSet\<close> is the assignment
  \<open>o[key] = v\<close>: an existing property keeps its place, a new one goes last. On an
  ordinary object an assignment to the name \<open>__proto__\<close> runs the setter inherited
  from \<open>Object.prototype\<close> and never creates an own property. An object the code
  receives is given in the order of its \<open>Object.keys\<close>; in the objects the code builds
  the order is insertion order (the precedence JavaScript gives to integer-like names
  is not modelled, and the general statements below read objects through \<open>map_of\<close>,
  which does not depend on the order).
\<close>

type_synonym 'c jsobject = "(string \<times> 'c jsvalue) list"

definition objKeys :: "(string \<times> 'v) list \<Rightarrow> string list" where
  "objKeys obj = map fst obj"

definition objGet :: "'c jsobject \<Rightarrow> string \<Rightarrow> 'c jsvalue" where
  "objGet obj key = (case map_of obj key of Some v \<Rightarrow> v | None \<Rightarrow> JUndefined)"

fun objDefine :: "string \<Rightarrow> 'v \<Rightarrow> (string \<times> 'v) list \<Rightarrow> (string \<times> 'v) list" where
  "objDefine key v [] = [(key, v)]"
| "objDefine key v ((k, w) # rest) =
     (if k = key then (key, v) # rest else (k, w) # objDefine key v rest)"

definition objSet :: "string \<Rightarrow> 'v \<Rightarrow> (string \<times> 'v) list \<Rightarrow> (string \<times> 'v) list" where
  "objSet key v obj = (if key = ''__proto__'' then obj else objDefine key v obj)"

text \<open>\<open>Object.assign(target, ...sources)\<close>: every own property of every source, in order,
  is assigned to the target.\<close>

definition objectAssign :: "'c jsobject \<Rightarrow> 'c jsobject list \<Rightarrow> 'c jsobject" where
  "objectAssign target sources =
     fold (\<lambda>source tgt. fold (\<lambda>key t. objSet key (objGet source key) t) (objKeys source) tgt)
       sources target"

text \<open>
  \<open>console.warn\<close> is the only output channel of the code: the console is the list of
  the calls made, each with its message and the value logged after it.
  \<open>JSON.parse\<close> is the language's; the functions that call it take it as the parameter
  \<open>jsonParse\<close>, with \<open>None\<close> for the \<open>SyntaxError\<close> it throws on malformed text.
\<close>

type_synonym 'c console = "(string \<times> 'c jsvalue) list"

section \<open>helpers.ts\<close>

definition parseJsonTrait ::
  "(string \<Rightarrow> 'c jsvalue option) \<Rightarrow> 'c jsvalue \<Rightarrow> 'c jsvalue \<times> 'c console" where
  "parseJsonTrait jsonParse val =
     (case val of
        JStr s \<Rightarrow>
          (case jsonParse s of
             Some parsed \<Rightarrow> (parsed, [])
           | None \<Rightarrow> (val, [(''Failed to parse JSON trait:'', val)]))
      | _ \<Rightarrow> (val, []))"

text \<open>\<open>typedWrapped\<close> is the constant of that name in the mapper \<open>createWrapperMapper\<close>
  returns: the object it nests under the wrapper key.\<close>

definition typedWrapped :: "'c jsobject \<Rightarrow> 'c jsobject \<Rightarrow> 'c jsobject" where
  "typedWrapped defaults attrs =
     (let wrapped0 =
            fold (\<lambda>key wrapped.
                    let val = objGet defaults key
                    in if val \<noteq> JUndefined then objSet key val wrapped else wrapped)
              (objKeys defaults) [];
          wrapped =
            fold (\<lambda>key wrapped.
                    let val = objGet attrs key
                    in if val \<noteq> JUndefined \<and> val \<noteq> JNull then objSet key val wrapped
                       else wrapped)
              (objKeys attrs) wrapped0
      in objectAssign [] [defaults, wrapped])"

definition createWrapperMapper :: "string \<Rightarrow> 'c jsobject \<Rightarrow> 'c jsobject \<Rightarrow> 'c jsobject" where
  "createWrapperMapper wrapperKey defaults attrs =
     objSet wrapperKey (JObject (typedWrapped defaults attrs)) []"

definition mergeDefaults :: "'c jsobject \<Rightarrow> 'c jsobject \<Rightarrow> 'c jsobject" where
  "mergeDefaults defaults attrs =
     fold (\<lambda>key result.
             let val = objGet attrs key
             in if val \<noteq> JUndefined \<and> val \<noteq> JStr [] then objSet key val result else result)
       (objKeys attrs) defaults"

section \<open>index.ts: the data model\<close>

datatype TraitType = Text | Number | Select | Checkbox | Color | Textarea | Json

datatype TraitDefinition =
    TextTrait (traitName: string) (traitLabel: string) "string option"
  | NumberTrait (traitName: string) (traitLabel: string) "int option" "int option" "int option"
      "int option"
  | SelectTrait (traitName: string) (traitLabel: string) "(string \<times> string) list"
      "string option"
  | CheckboxTrait (traitName: string) (traitLabel: string) "bool option"
  | ColorTrait (traitName: string) (traitLabel: string) "string option"
  | TextareaTrait (traitName: string) (traitLabel: string) "string option"
  | JsonTrait (traitName: string) (traitLabel: string) "string option"

fun traitType :: "TraitDefinition \<Rightarrow> TraitType" where
  "traitType (TextTrait n l d) = Text"
| "traitType (NumberTrait n l d mn mx st) = Number"
| "traitType (SelectTrait n l os d) = Select"
| "traitType (CheckboxTrait n l d) = Checkbox"
| "traitType (ColorTrait n l d) = Color"
| "traitType (TextareaTrait n l d) = Textarea"
| "traitType (JsonTrait n l d) = Json"

text \<open>A custom mapper is a function of the attributes; what it writes to the console
  (the factories' mappers warn on malformed JSON) is returned beside the properties.\<close>

record 'c ComponentConfig =
  component :: "'c elementType"
  traits :: "TraitDefinition list option"
  defaultProps :: "'c jsobject option"
  mapProps :: "('c jsobject \<Rightarrow> 'c jsobject \<times> 'c console) option"

text \<open>The fields \<open>component\<close> and \<open>props\<close> of a provider config are \<open>pc_component\<close> and
  \<open>pc_props\<close> here, the name \<open>component\<close> being the descriptor's field.\<close>

record 'c ProviderConfig =
  pc_component :: 'c
  pc_props :: "'c jsobject option"

text \<open>A registered value is a bare component (a function), a bare element, or a
  descriptor. \<open>components\<close> lists the entries in the order of \<open>Object.keys\<close>.
  The component name the custom wrapper receives is \<open>undefined\<close> (\<open>None\<close>) only when
  nothing is registered and nothing selected, and then the wrapper is never called.\<close>

datatype 'c registration =
    BareFunction 'c
  | BareElement "'c jsvalue"
  | Descriptor "'c ComponentConfig"

record 'c ReactComponentsPluginOptions =
  components :: "(string \<times> 'c registration) list"
  defaultComponent :: "string option"
  Provider :: "'c option"
  providerProps :: "'c jsobject option"
  providers :: "'c ProviderConfig list option"
  wrapComponent :: "('c jsvalue \<Rightarrow> string option \<Rightarrow> 'c jsvalue) option"

section \<open>index.ts: createProviderWrapper\<close>

text \<open>\<open>Array.prototype.reduceRight\<close> with an initial value: the callback runs on the
  indices from the last down to the first.\<close>

fun reduceRightFrom :: "('b \<Rightarrow> 'a \<Rightarrow> 'b) \<Rightarrow> 'a list \<Rightarrow> nat \<Rightarrow> 'b \<Rightarrow> 'b" where
  "reduceRightFrom f xs 0 acc = acc"
| "reduceRightFrom f xs (Suc k) acc = reduceRightFrom f xs k (f acc (xs ! k))"

definition reduceRight :: "('b \<Rightarrow> 'a \<Rightarrow> 'b) \<Rightarrow> 'a list \<Rightarrow> 'b \<Rightarrow> 'b" where
  "reduceRight f xs init = reduceRightFrom f xs (length xs) init"

text \<open>\<open>React.createElement(type, props)\<close>: the element, with the type and the
  properties object it was created from.\<close>

definition createElement :: "'c elementType \<Rightarrow> 'c jsobject \<Rightarrow> 'c jsvalue" where
  "createElement type props = JElement type props"

definition wrapInProvider :: "'c jsvalue \<Rightarrow> 'c ProviderConfig \<Rightarrow> 'c jsvalue" where
  "wrapInProvider acc providerConfig =
     (let props = (case pc_props providerConfig of
                     Some ps \<Rightarrow> objDefine ''children'' acc ps
                   | None \<Rightarrow> [(''children'', acc)])
      in createElement (ComponentType (pc_component providerConfig)) props)"

definition createProviderWrapper ::
  "'c ReactComponentsPluginOptions \<Rightarrow> 'c jsvalue \<Rightarrow> string option \<Rightarrow> 'c jsvalue" where
  "createProviderWrapper options =
     (case wrapComponent options of
        Some wrap \<Rightarrow> (\<lambda>element componentName. wrap element componentName)
      | None \<Rightarrow>
          (case providers options of
             Some (p # ps) \<Rightarrow> (\<lambda>element componentName. reduceRight wrapInProvider (p # ps) element)
           | _ \<Rightarrow>
               (case Provider options of
                  Some P \<Rightarrow>
                    (\<lambda>element componentName.
                       let props = (case providerProps options of
                                      Some pp \<Rightarrow> objDefine ''children'' element pp
                                    | None \<Rightarrow> [(''children'', element)])
                       in createElement (ComponentType P) props)
                | None \<Rightarrow> (\<lambda>element componentName. element))))"

section \<open>index.ts: createReactComponentsPlugin\<close>

definition defaultTraits :: "TraitDefinition list" where
  "defaultTraits =
     [TextTrait ''title'' ''Title'' None,
      TextTrait ''subtitle'' ''Subtitle'' None,
      TextTrait ''description'' ''Description'' None]"

fun normalizeEntry :: "'c registration \<Rightarrow> 'c ComponentConfig" where
  "normalizeEntry (BareFunction cmp) =
     \<lparr>component = ComponentType cmp, traits = Some defaultTraits, defaultProps = None,
      mapProps = None\<rparr>"
| "normalizeEntry (BareElement cmp) =
     \<lparr>component = ElementThunk cmp, traits = Some defaultTraits, defaultProps = None,
      mapProps = None\<rparr>"
| "normalizeEntry (Descriptor cmp) = cmp"

definition normalizeComponents ::
  "(string \<times> 'c registration) list \<Rightarrow> (string \<times> 'c ComponentConfig) list" where
  "normalizeComponents comps =
     fold (\<lambda>(name, cmp) normalized. objSet name (normalizeEntry cmp) normalized) comps []"

text \<open>What the plugin fixes when it is configured, before any editor or render exists.\<close>

record 'c Plugin =
  fallbackName :: "string option"
  wrapWithProviders :: "'c jsvalue \<Rightarrow> string option \<Rightarrow> 'c jsvalue"
  normalizedComponents :: "(string \<times> 'c ComponentConfig) list"

definition createReactComponentsPlugin :: "'c ReactComponentsPluginOptions \<Rightarrow> 'c Plugin" where
  "createReactComponentsPlugin options =
     \<lparr>fallbackName =
        (case defaultComponent options of
           Some (c # cs) \<Rightarrow> Some (c # cs)
         | _ \<Rightarrow> (case objKeys (components options) of [] \<Rightarrow> None | name # _ \<Rightarrow> Some name)),
      wrapWithProviders = createProviderWrapper options,
      normalizedComponents = normalizeComponents (components options)\<rparr>"

text \<open>The trait list the node type exposes, and the map used to find JSON traits.\<close>

definition selectorTrait :: "string list \<Rightarrow> TraitDefinition" where
  "selectorTrait names =
     SelectTrait ''component'' ''Component'' (map (\<lambda>name. (name, name)) names) None"

definition pushTraits :: "TraitDefinition list \<Rightarrow> TraitDefinition list \<Rightarrow> TraitDefinition list" where
  "pushTraits ts base =
     fold (\<lambda>trait base.
             if find (\<lambda>t. traitName t = traitName trait) base = None then base @ [trait]
             else base)
       ts base"

definition baseTraits :: "(string \<times> 'c ComponentConfig) list \<Rightarrow> TraitDefinition list" where
  "baseTraits normalized =
     fold (\<lambda>config base. case traits config of Some ts \<Rightarrow> pushTraits ts base | None \<Rightarrow> base)
       (map snd normalized) [selectorTrait (objKeys normalized)]"

definition traitsMap :: "(string \<times> 'c ComponentConfig) list \<Rightarrow> string \<Rightarrow> TraitDefinition option" where
  "traitsMap normalized =
     fold (\<lambda>trait m. if traitName trait \<noteq> [] then m(traitName trait \<mapsto> trait) else m)
       (baseTraits normalized) Map.empty"

section \<open>index.ts: the view's render\<close>

text \<open>
  \<open>normalizedComponents\<close> is an ordinary object (\<open>{}\<close>), and the selected name comes
  from the node: the read \<open>normalizedComponents[componentName]\<close> finds an own property,
  or else a member every ordinary object inherits from \<open>Object.prototype\<close> (a function
  or an object, so truthy, and with no \<open>component\<close>, \<open>defaultProps\<close> or \<open>mapProps\<close>),
  or else \<open>undefined\<close>. An \<open>undefined\<close> name is read as the property \<open>undefined\<close>.
  The configuration is taken to have no own property named \<open>__proto__\<close> (an object
  literal cannot give it one).
\<close>

definition objectPrototypeMembers :: "string list" where
  "objectPrototypeMembers =
     [''constructor'', ''hasOwnProperty'', ''isPrototypeOf'', ''propertyIsEnumerable'',
      ''toLocaleString'', ''toString'', ''valueOf'', ''__proto__'', ''__defineGetter__'',
      ''__defineSetter__'', ''__lookupGetter__'', ''__lookupSetter__'']"

datatype 'c lookup = OwnDescriptor "'c ComponentConfig" | InheritedMember | NotFound

definition propertyKey :: "string option \<Rightarrow> string" where
  "propertyKey name = (case name of Some n \<Rightarrow> n | None \<Rightarrow> ''undefined'')"

definition lookupDescriptor ::
  "(string \<times> 'c ComponentConfig) list \<Rightarrow> string option \<Rightarrow> 'c lookup" where
  "lookupDescriptor normalized componentName =
     (let key = propertyKey componentName
      in case map_of normalized key of
           Some config \<Rightarrow> OwnDescriptor config
         | None \<Rightarrow> if key \<in> set objectPrototypeMembers then InheritedMember else NotFound)"

text \<open>
  The view (taken to pass \<open>hasViewProperties\<close>): the attributes its model returns and its
  root. A root is the list of the elements handed to \<open>root.render\<close>, oldest first;
  \<open>None\<close> is a view whose root has not been created.
\<close>

record 'c View =
  modelAttributes :: "'c jsobject"
  viewRoot :: "'c jsvalue list option"

fun isAttributeValue :: "'c jsvalue \<Rightarrow> bool" where
  "isAttributeValue (JStr s) = True"
| "isAttributeValue (JNum n) = True"
| "isAttributeValue (JBool b) = True"
| "isAttributeValue JUndefined = True"
| "isAttributeValue JNull = True"
| "isAttributeValue (JArray xs) = False"
| "isAttributeValue (JObject ps) = False"
| "isAttributeValue (JElement t ps) = False"

definition toComponentAttributes :: "'c jsobject \<Rightarrow> 'c jsobject" where
  "toComponentAttributes attrsRaw =
     fold (\<lambda>key attrs.
             let val = objGet attrsRaw key
             in if isAttributeValue val then objSet key val attrs else attrs)
       (objKeys attrsRaw) []"

definition seedDefaults :: "'c jsobject option \<Rightarrow> 'c jsobject" where
  "seedDefaults dprops =
     (case dprops of
        Some dp \<Rightarrow>
          fold (\<lambda>key rawProps.
                  let val = objGet dp key
                  in if val \<noteq> JUndefined then objSet key val rawProps else rawProps)
            (objKeys dp) []
      | None \<Rightarrow> [])"

definition overlayAttribute ::
  "(string \<Rightarrow> TraitDefinition option) \<Rightarrow> (string \<Rightarrow> 'c jsvalue option) \<Rightarrow> 'c jsobject \<Rightarrow>
   string \<Rightarrow> 'c jsobject \<times> 'c console \<Rightarrow> 'c jsobject \<times> 'c console" where
  "overlayAttribute tmap jsonParse attrs key acc =
     (let rawProps = fst acc; warned = snd acc; val = objGet attrs key
      in if key \<noteq> ''component'' \<and> key \<noteq> ''data-gjs-type'' \<and> val \<noteq> JUndefined \<and>
            val \<noteq> JNull \<and> val \<noteq> JStr []
         then (case (tmap key, val) of
                 (Some trait, JStr s) \<Rightarrow>
                   if traitType trait = Json
                   then (case jsonParse s of
                           Some parsed \<Rightarrow> (objSet key parsed rawProps, warned)
                         | None \<Rightarrow>
                             (objSet key val rawProps,
                              warned @ [(''Failed to parse JSON trait '' @ key @ '':'', val)]))
                   else (objSet key val rawProps, warned)
               | _ \<Rightarrow> (objSet key val rawProps, warned))
         else (rawProps, warned))"

definition overlayAttributes ::
  "(string \<Rightarrow> TraitDefinition option) \<Rightarrow> (string \<Rightarrow> 'c jsvalue option) \<Rightarrow> 'c jsobject \<Rightarrow>
   'c jsobject \<Rightarrow> 'c jsobject \<times> 'c console" where
  "overlayAttributes tmap jsonParse attrs seeded =
     fold (overlayAttribute tmap jsonParse attrs) (objKeys attrs) (seeded, [])"

definition mountRoot :: "'c View \<Rightarrow> 'c jsvalue \<Rightarrow> 'c View" where
  "mountRoot view wrappedElement =
     view\<lparr>viewRoot :=
            Some ((case viewRoot view of None \<Rightarrow> [] | Some rendered \<Rightarrow> rendered) @
                  [wrappedElement])\<rparr>"

text \<open>
  \<open>finalProps\<close> is the constant of that name in \<open>render\<close>, with what reaches the console
  while it is computed: the default overlay runs (and may warn) whether or not the
  descriptor has a mapper. \<open>renderConfig\<close> is the part of \<open>render\<close> after the descriptor
  is found: \<open>Comp\<close>, \<open>dprops\<close> and \<open>mapper\<close> are what \<open>config.component\<close>,
  \<open>config.defaultProps\<close> and \<open>config.mapProps\<close> read.
\<close>

definition finalProps ::
  "(string \<Rightarrow> TraitDefinition option) \<Rightarrow> (string \<Rightarrow> 'c jsvalue option) \<Rightarrow> 'c jsobject \<Rightarrow>
   'c jsobject option \<Rightarrow> ('c jsobject \<Rightarrow> 'c jsobject \<times> 'c console) option \<Rightarrow>
   'c jsobject \<times> 'c console" where
  "finalProps tmap jsonParse attrs dprops mapper =
     (let raw = overlayAttributes tmap jsonParse attrs (seedDefaults dprops)
      in case mapper of
           Some f \<Rightarrow> (let mapped = f attrs in (fst mapped, snd raw @ snd mapped))
         | None \<Rightarrow> raw)"

definition renderConfig ::
  "'c Plugin \<Rightarrow> (string \<Rightarrow> 'c jsvalue option) \<Rightarrow> 'c View \<Rightarrow> 'c jsobject \<Rightarrow> string option \<Rightarrow>
   'c elementType \<Rightarrow> 'c jsobject option \<Rightarrow> ('c jsobject \<Rightarrow> 'c jsobject \<times> 'c console) option \<Rightarrow>
   'c View \<times> 'c console" where
  "renderConfig plugin jsonParse view attrs componentName Comp dprops mapper =
     (let final = finalProps (traitsMap (normalizedComponents plugin)) jsonParse attrs dprops
                    mapper;
          element = createElement Comp (fst final);
          wrappedElement = wrapWithProviders plugin element componentName
      in (mountRoot view wrappedElement, snd final))"

definition selectedName :: "'c Plugin \<Rightarrow> 'c jsobject \<Rightarrow> string option" where
  "selectedName plugin attrs =
     (case objGet attrs ''component'' of
        JStr (c # cs) \<Rightarrow> Some (c # cs)
      | _ \<Rightarrow> fallbackName plugin)"

definition render ::
  "'c Plugin \<Rightarrow> (string \<Rightarrow> 'c jsvalue option) \<Rightarrow> 'c View \<Rightarrow> 'c View \<times> 'c console" where
  "render plugin jsonParse view =
     (let attrs = toComponentAttributes (modelAttributes view);
          componentName = selectedName plugin attrs
      in case lookupDescriptor (normalizedComponents plugin) componentName of
           NotFound \<Rightarrow> (view, [])
         | OwnDescriptor config \<Rightarrow>
             renderConfig plugin jsonParse view attrs componentName (component config)
               (defaultProps config) (mapProps config)
         | InheritedMember \<Rightarrow>
             renderConfig plugin jsonParse view attrs componentName UndefinedType None None)"

section \<open>factories.ts\<close>

fun isString :: "'c jsvalue \<Rightarrow> bool" where
  "isString (JStr s) = True"
| "isString v = False"

definition createJsonComponentConfig ::
  "(string \<Rightarrow> 'c jsvalue option) \<Rightarrow> 'c elementType \<Rightarrow> TraitDefinition list \<Rightarrow> string list \<Rightarrow>
   'c jsobject \<Rightarrow> ('c jsobject \<Rightarrow> 'c jsobject \<times> 'c console) option \<Rightarrow> 'c ComponentConfig" where
  "createJsonComponentConfig jsonParse cmp ts jsonFields dprops mapper =
     \<lparr>component = cmp, traits = Some ts, defaultProps = Some dprops,
      mapProps = Some (\<lambda>attrs.
        let parsed =
              fold (\<lambda>key acc.
                      let val = objGet attrs key
                      in if key \<in> set jsonFields \<and> isString val
                         then (let r = parseJsonTrait jsonParse val
                               in (objSet key (fst r) (fst acc), snd acc @ snd r))
                         else if val \<noteq> JUndefined \<and> val \<noteq> JNull
                         then (objSet key val (fst acc), snd acc)
                         else acc)
                (objKeys attrs) ([], [])
        in case mapper of
             Some f \<Rightarrow> (let r = f (fst parsed) in (fst r, snd parsed @ snd r))
           | None \<Rightarrow>
               (fold (\<lambda>key result.
                        let val = objGet (fst parsed) key
                        in if val \<noteq> JUndefined then objSet key val result else result)
                  (objKeys (fst parsed)) [],
                snd parsed))\<rparr>"

section \<open>The specification's wording, for comparison with the code\<close>

text \<open>
  The provider composer as the specification words it: one strategy is chosen from the
  configuration, in the order custom wrapper, non-empty provider list, single provider,
  identity; the list strategy folds from the right, each config wrapping the result of
  the configs after it.
\<close>

datatype 'c strategy =
    CustomWrapper "'c jsvalue \<Rightarrow> string option \<Rightarrow> 'c jsvalue"
  | ProviderList "'c ProviderConfig list"
  | SingleProvider 'c "'c jsobject option"
  | NoWrapping

definition spec_strategy :: "'c ReactComponentsPluginOptions \<Rightarrow> 'c strategy" where
  "spec_strategy options =
     (if wrapComponent options \<noteq> None then CustomWrapper (the (wrapComponent options))
      else if providers options \<noteq> None \<and> providers options \<noteq> Some []
      then ProviderList (the (providers options))
      else if Provider options \<noteq> None
      then SingleProvider (the (Provider options)) (providerProps options)
      else NoWrapping)"

fun spec_nest :: "'c ProviderConfig list \<Rightarrow> 'c jsvalue \<Rightarrow> 'c jsvalue" where
  "spec_nest [] element = element"
| "spec_nest (outer # inner) element = wrapInProvider (spec_nest inner element) outer"

fun spec_applyStrategy :: "'c strategy \<Rightarrow> 'c jsvalue \<Rightarrow> string option \<Rightarrow> 'c jsvalue" where
  "spec_applyStrategy (CustomWrapper wrap) element componentName = wrap element componentName"
| "spec_applyStrategy (ProviderList configs) element componentName = spec_nest configs element"
| "spec_applyStrategy (SingleProvider P pp) element componentName =
     wrapInProvider element \<lparr>pc_component = P, pc_props = pp\<rparr>"
| "spec_applyStrategy NoWrapping element componentName = element"

text \<open>
  The trait merge as the specification words it: all the traits of all the descriptors,
  in registration order, behind the component selector, and of every name only the
  first occurrence kept.
\<close>

definition allTraits :: "(string \<times> 'c ComponentConfig) list \<Rightarrow> TraitDefinition list" where
  "allTraits normalized =
     concat (map (\<lambda>config. case traits config of Some ts \<Rightarrow> ts | None \<Rightarrow> [])
               (map snd normalized))"

fun spec_firstByName :: "TraitDefinition list \<Rightarrow> TraitDefinition list" where
  "spec_firstByName [] = []"
| "spec_firstByName (t # ts) =
     t # spec_firstByName (filter (\<lambda>u. traitName u \<noteq> traitName t) ts)"

definition spec_mergedTraits :: "(string \<times> 'c ComponentConfig) list \<Rightarrow> TraitDefinition list" where
  "spec_mergedTraits normalized =
     spec_firstByName (selectorTrait (objKeys normalized) # allTraits normalized)"

section \<open>Auxiliary notions for the proofs\<close>

text \<open>Every loop of the code that fills an object has one shape: it walks a list of
  keys and assigns, at each key, a value that depends on the key alone, or nothing.\<close>

definition assignEach ::
  "(string \<Rightarrow> 'v option) \<Rightarrow> string list \<Rightarrow> (string \<times> 'v) list \<Rightarrow> (string \<times> 'v) list" where
  "assignEach f ks init =
     fold (\<lambda>key acc. case f key of Some v \<Rightarrow> objSet key v acc | None \<Rightarrow> acc) ks init"

text \<open>The value one step of the default overlay assigns at a key, if any.\<close>

definition overlayValue ::
  "(string \<Rightarrow> TraitDefinition option) \<Rightarrow> (string \<Rightarrow> 'c jsvalue option) \<Rightarrow> 'c jsobject \<Rightarrow>
   string \<Rightarrow> 'c jsvalue option" where
  "overlayValue tmap jsonParse attrs key =
     (let val = objGet attrs key
      in if key = ''component'' \<or> key = ''data-gjs-type'' \<or> val = JUndefined \<or> val = JNull \<or>
            val = JStr []
         then None
         else (case (tmap key, val) of
                 (Some trait, JStr s) \<Rightarrow>
                   if traitType trait = Json
                   then (case jsonParse s of Some parsed \<Rightarrow> Some parsed | None \<Rightarrow> Some val)
                   else Some val
               | _ \<Rightarrow> Some val))"

section \<open>Concrete configurations\<close>

text \<open>
  The configurations, views and decoder the examples below run on. Component references
  are named by strings. \<open>demoJsonParse\<close> stands for \<open>JSON.parse\<close> on the two texts the
  examples decode: it agrees with it on \<open>[1]\<close> and on the malformed \<open>{oops\<close>.
\<close>

definition demoJsonParse :: "string \<Rightarrow> string jsvalue option" where
  "demoJsonParse text = (if text = ''[1]'' then Some (JArray [JNum 1]) else None)"

definition viewWith :: "string jsobject \<Rightarrow> string View" where
  "viewWith attrs = \<lparr>modelAttributes = attrs, viewRoot = None\<rparr>"

definition pluginOptions ::
  "(string \<times> string registration) list \<Rightarrow> string option \<Rightarrow> string ReactComponentsPluginOptions" where
  "pluginOptions comps dflt =
     \<lparr>components = comps, defaultComponent = dflt, Provider = None, providerProps = None,
      providers = None, wrapComponent = None\<rparr>"


definition chartOptions :: "string ReactComponentsPluginOptions" where
  "chartOptions =
     pluginOptions
       [(''Chart'',
         Descriptor (createJsonComponentConfig demoJsonParse (ComponentType ''ChartComponent'')
           [JsonTrait ''data'' ''Data'' None] [''data''] [] None))]
       None"

definition unnamedTraitOptions :: "string ReactComponentsPluginOptions" where
  "unnamedTraitOptions =
     pluginOptions
       [(''Chart'',
         Descriptor \<lparr>component = ComponentType ''ChartComponent'',
           traits = Some [JsonTrait [] ''Data'' None], defaultProps = None, mapProps = None\<rparr>)]
       None"

definition markerTraitOptions :: "string ReactComponentsPluginOptions" where
  "markerTraitOptions =
     pluginOptions
       [(''Chart'',
         Descriptor \<lparr>component = ComponentType ''ChartComponent'',
           traits = Some [JsonTrait ''data-gjs-type'' ''Marker'' None], defaultProps = None,
           mapProps = None\<rparr>)]
       None"

definition chartCardOptions :: "string ReactComponentsPluginOptions" where
  "chartCardOptions =
     pluginOptions
       [(''Chart'',
         Descriptor \<lparr>component = ComponentType ''ChartComponent'',
           traits = Some [JsonTrait ''data'' ''Data'' None], defaultProps = None,
           mapProps = None\<rparr>),
        (''Card'',
         Descriptor \<lparr>component = ComponentType ''CardComponent'',
           traits = Some [TextTrait ''data'' ''Caption'' None], defaultProps = None,
           mapProps = None\<rparr>)]
       None"


definition providerA :: "string ProviderConfig" where
  "providerA = \<lparr>pc_component = ''StoreProvider'', pc_props = Some [(''store'', JStr ''s'')]\<rparr>"

definition providerB :: "string ProviderConfig" where
  "providerB = \<lparr>pc_component = ''ThemeProvider'', pc_props = None\<rparr>"

definition providerOptions :: "string ReactComponentsPluginOptions" where
  "providerOptions =
     \<lparr>components = [(''Hero'', BareFunction ''HeroComponent'')], defaultComponent = None,
      Provider = Some ''AppProvider'', providerProps = None,
      providers = Some [providerA, providerB], wrapComponent = None\<rparr>"

definition nestUnderConfig :: "string jsobject \<Rightarrow> string jsobject \<times> string console" where
  "nestUnderConfig attrs = ([(''config'', JObject attrs)], [])"

definition panelConfig :: "string ComponentConfig" where
  "panelConfig =
     \<lparr>component = ComponentType ''PanelComponent'', traits = None,
      defaultProps = Some [(''title'', JStr ''Default'')], mapProps = Some nestUnderConfig\<rparr>"

definition panelOptions :: "string ReactComponentsPluginOptions" where
  "panelOptions = pluginOptions [(''Panel'', Descriptor panelConfig)] None"

section \<open>Lemmas and theorems\<close>

subsection \<open>Objects\<close>

lemma map_of_objDefine: "map_of (objDefine k v obj) = (map_of obj)(k \<mapsto> v)"
  by (induction obj) auto

lemma map_of_objSet:
  "map_of (objSet k v obj) = (if k = ''__proto__'' then map_of obj else (map_of obj)(k \<mapsto> v))"
  by (simp add: objSet_def map_of_objDefine)

lemma keys_iff_map_of: "k \<in> set (objKeys obj) \<longleftrightarrow> map_of obj k \<noteq> None"
  by (simp add: objKeys_def map_of_eq_None_iff)

lemma objGet_map_of: "objGet obj k = (case map_of obj k of Some v \<Rightarrow> v | None \<Rightarrow> JUndefined)"
  by (simp add: objGet_def)

lemma objGet_defined_key: "objGet obj k \<noteq> JUndefined \<Longrightarrow> k \<in> set (objKeys obj)"
  by (cases "map_of obj k") (auto simp: keys_iff_map_of objGet_def)

lemma map_of_key_objGet: "k \<in> set (objKeys obj) \<Longrightarrow> map_of obj k = Some (objGet obj k)"
  by (cases "map_of obj k") (auto simp: keys_iff_map_of objGet_def)

lemma objDefine_fresh: "k \<notin> set (objKeys obj) \<Longrightarrow> objDefine k v obj = obj @ [(k, v)]"
  by (induction obj) (auto simp: objKeys_def)

lemma map_of_assignEach:
  "map_of (assignEach f ks init) k =
     (if k \<in> set ks \<and> k \<noteq> ''__proto__'' \<and> f k \<noteq> None then f k else map_of init k)"
proof (induction ks arbitrary: init)
  case Nil
  then show ?case by (simp add: assignEach_def)
next
  case (Cons a ks)
  have step: "assignEach f (a # ks) init =
      assignEach f ks (case f a of Some v \<Rightarrow> objSet a v init | None \<Rightarrow> init)"
    by (simp add: assignEach_def)
  show ?case
    unfolding step Cons.IH
    by (cases "f a") (auto simp: map_of_objSet)
qed

lemma assignEach_if:
  "assignEach (\<lambda>key. if keep key then Some (g key) else None) ks init =
     fold (\<lambda>key acc. if keep key then objSet key (g key) acc else acc) ks init"
proof -
  have "(\<lambda>key acc. case (if keep key then Some (g key) else None) of
                      Some v \<Rightarrow> objSet key v acc | None \<Rightarrow> acc) =
        (\<lambda>key acc. if keep key then objSet key (g key) acc else acc)"
    by (intro ext) simp
  then show ?thesis by (simp add: assignEach_def)
qed

lemma assignEach_appends:
  "distinct (map fst rest) \<Longrightarrow> set (map fst rest) \<inter> set (objKeys acc) = {} \<Longrightarrow>
   ''__proto__'' \<notin> set (map fst rest) \<Longrightarrow> (\<forall>p \<in> set rest. f (fst p) = Some (snd p)) \<Longrightarrow>
   assignEach f (map fst rest) acc = acc @ rest"
proof (induction rest arbitrary: acc)
  case Nil
  then show ?case by (simp add: assignEach_def)
next
  case (Cons p rest)
  obtain k v where p: "p = (k, v)" by (cases p)
  from Cons.prems p have fresh: "k \<notin> set (objKeys acc)" and fk: "f k = Some v"
    and np: "k \<noteq> ''__proto__''"
    by auto
  have step: "assignEach f (map fst (p # rest)) acc = assignEach f (map fst rest) (acc @ [(k, v)])"
    using fresh fk np by (simp add: assignEach_def p objSet_def objDefine_fresh)
  have "assignEach f (map fst rest) (acc @ [(k, v)]) = (acc @ [(k, v)]) @ rest"
    using Cons.prems p by (intro Cons.IH) (auto simp: objKeys_def)
  with step show ?case by (simp add: p)
qed

lemma map_of_copy:
  "map_of (fold (\<lambda>key t. objSet key (objGet source key) t) (objKeys source) tgt) k =
     (if k \<noteq> ''__proto__'' \<and> map_of source k \<noteq> None then map_of source k else map_of tgt k)"
proof -
  have "fold (\<lambda>key t. objSet key (objGet source key) t) (objKeys source) tgt =
      assignEach (\<lambda>key. Some (objGet source key)) (objKeys source) tgt"
    by (simp add: assignEach_def)
  then show ?thesis
    by (auto simp: map_of_assignEach map_of_key_objGet keys_iff_map_of)
qed

lemmas run_defs =
  render_def renderConfig_def finalProps_def overlayAttributes_def overlayAttribute_def
  seedDefaults_def toComponentAttributes_def selectedName_def lookupDescriptor_def
  propertyKey_def objectPrototypeMembers_def mountRoot_def createElement_def
  createReactComponentsPlugin_def createProviderWrapper_def normalizeComponents_def
  traitsMap_def baseTraits_def pushTraits_def selectorTrait_def defaultTraits_def
  objKeys_def objGet_def objSet_def viewWith_def pluginOptions_def demoJsonParse_def
  wrapInProvider_def allTraits_def Let_def

subsection \<open>Attributes, defaults and the default overlay\<close>

lemma toComponentAttributes_assignEach:
  "toComponentAttributes raw =
     assignEach (\<lambda>key. if isAttributeValue (objGet raw key) then Some (objGet raw key) else None)
       (objKeys raw) []"
  by (simp add: toComponentAttributes_def assignEach_if Let_def)

lemma map_of_toComponentAttributes:
  "map_of (toComponentAttributes raw) k =
     (if k \<noteq> ''__proto__'' \<and> k \<in> set (objKeys raw) \<and> isAttributeValue (objGet raw k)
      then Some (objGet raw k) else None)"
  by (simp add: toComponentAttributes_assignEach map_of_assignEach)

lemma objGet_toComponentAttributes:
  "objGet (toComponentAttributes raw) k =
     (if k \<noteq> ''__proto__'' \<and> isAttributeValue (objGet raw k) then objGet raw k else JUndefined)"
proof (cases "k \<in> set (objKeys raw)")
  case True
  then show ?thesis
    unfolding objGet_map_of [of "toComponentAttributes raw"] map_of_toComponentAttributes
    by simp
next
  case False
  then have "objGet raw k = JUndefined"
    using objGet_defined_key by blast
  with False show ?thesis
    unfolding objGet_map_of [of "toComponentAttributes raw"] map_of_toComponentAttributes
    by simp
qed

lemma toComponentAttributes_id:
  assumes "distinct (objKeys raw)" and "''__proto__'' \<notin> set (objKeys raw)"
    and "\<forall>v \<in> snd ` set raw. isAttributeValue v"
  shows "toComponentAttributes raw = raw"
proof -
  have "\<forall>p \<in> set raw. objGet raw (fst p) = snd p"
    using assms(1) by (auto simp: objGet_def objKeys_def)
  with assms(3) have "\<forall>p \<in> set raw.
      (if isAttributeValue (objGet raw (fst p)) then Some (objGet raw (fst p)) else None) =
        Some (snd p)"
    by auto
  then have "assignEach (\<lambda>key. if isAttributeValue (objGet raw key) then Some (objGet raw key)
      else None) (map fst raw) [] = [] @ raw"
    using assms(1,2) by (intro assignEach_appends) (auto simp: objKeys_def)
  then show ?thesis
    by (simp add: toComponentAttributes_assignEach objKeys_def)
qed

lemma seedDefaults_assignEach:
  "seedDefaults (Some dp) =
     assignEach (\<lambda>key. if objGet dp key \<noteq> JUndefined then Some (objGet dp key) else None)
       (objKeys dp) []"
  by (simp add: seedDefaults_def assignEach_if Let_def)

lemma map_of_seedDefaults:
  "map_of (seedDefaults (Some dp)) k =
     (if k \<noteq> ''__proto__'' \<and> objGet dp k \<noteq> JUndefined then Some (objGet dp k) else None)"
  by (auto simp: seedDefaults_assignEach map_of_assignEach keys_iff_map_of objGet_def
           split: option.splits)

lemma mergeDefaults_assignEach:
  "mergeDefaults defaults attrs =
     assignEach (\<lambda>key. if objGet attrs key \<noteq> JUndefined \<and> objGet attrs key \<noteq> JStr []
                        then Some (objGet attrs key) else None)
       (objKeys attrs) defaults"
  by (simp add: mergeDefaults_def assignEach_if Let_def)

lemma fst_overlayAttribute:
  "fst (overlayAttribute tmap jp attrs key acc) =
     (case overlayValue tmap jp attrs key of Some v \<Rightarrow> objSet key v (fst acc) | None \<Rightarrow> fst acc)"
  by (auto simp: overlayAttribute_def overlayValue_def Let_def
           split: option.splits jsvalue.splits)

lemma fst_fold_overlayAttribute:
  "fst (fold (overlayAttribute tmap jp attrs) ks acc) =
     assignEach (overlayValue tmap jp attrs) ks (fst acc)"
proof (induction ks arbitrary: acc)
  case Nil
  then show ?case by (simp add: assignEach_def)
next
  case (Cons a ks)
  show ?case
    using Cons.IH [of "overlayAttribute tmap jp attrs a acc"]
    by (simp add: assignEach_def fst_overlayAttribute)
qed

lemma fst_overlayAttributes:
  "fst (overlayAttributes tmap jp attrs seeded) =
     assignEach (overlayValue tmap jp attrs) (objKeys attrs) seeded"
  by (simp add: overlayAttributes_def fst_fold_overlayAttribute)

lemma map_of_overlayAttributes:
  "map_of (fst (overlayAttributes tmap jp attrs seeded)) k =
     (if k \<noteq> ''__proto__'' \<and> overlayValue tmap jp attrs k \<noteq> None
      then overlayValue tmap jp attrs k else map_of seeded k)"
proof -
  have "overlayValue tmap jp attrs k \<noteq> None \<Longrightarrow> objGet attrs k \<noteq> JUndefined"
    by (auto simp: overlayValue_def Let_def)
  then have "overlayValue tmap jp attrs k \<noteq> None \<Longrightarrow> k \<in> set (objKeys attrs)"
    by (auto dest: objGet_defined_key)
  then show ?thesis
    by (auto simp: fst_overlayAttributes map_of_assignEach)
qed

lemma map_of_typedWrapped:
  "map_of (typedWrapped defaults attrs) k =
     (if k = ''__proto__'' then None
      else if objGet attrs k \<noteq> JUndefined \<and> objGet attrs k \<noteq> JNull then Some (objGet attrs k)
      else map_of defaults k)"
proof -
  let ?seeded = "assignEach (\<lambda>key. if objGet defaults key \<noteq> JUndefined
                            then Some (objGet defaults key) else None) (objKeys defaults) []"
  let ?wrapped = "assignEach (\<lambda>key. if objGet attrs key \<noteq> JUndefined \<and> objGet attrs key \<noteq> JNull
                          then Some (objGet attrs key) else None) (objKeys attrs) ?seeded"
  have unfold: "typedWrapped defaults attrs = objectAssign [] [defaults, ?wrapped]"
    by (simp add: typedWrapped_def assignEach_if Let_def)
  have w0: "map_of ?seeded k =
      (if k \<noteq> ''__proto__'' \<and> objGet defaults k \<noteq> JUndefined then Some (objGet defaults k)
       else None)"
    by (auto simp: map_of_assignEach dest: objGet_defined_key)
  have w: "map_of ?wrapped k =
      (if k \<noteq> ''__proto__'' \<and> objGet attrs k \<noteq> JUndefined \<and> objGet attrs k \<noteq> JNull
       then Some (objGet attrs k) else map_of ?seeded k)"
    by (auto simp: map_of_assignEach dest: objGet_defined_key)
  have assign: "map_of (objectAssign [] [defaults, ?wrapped]) k =
      (if k \<noteq> ''__proto__'' \<and> map_of ?wrapped k \<noteq> None then map_of ?wrapped k
       else if k \<noteq> ''__proto__'' \<and> map_of defaults k \<noteq> None then map_of defaults k
       else None)"
    by (simp add: objectAssign_def map_of_copy)
  have d: "objGet defaults k = (case map_of defaults k of Some v \<Rightarrow> v | None \<Rightarrow> JUndefined)"
    by (simp add: objGet_def)
  show ?thesis
    unfolding unfold assign w w0 d
    by (cases "map_of defaults k") auto
qed

subsection \<open>The registry and the resolution of the selected name\<close>









lemma render_own:
  assumes "lookupDescriptor (normalizedComponents plugin)
      (selectedName plugin (toComponentAttributes (modelAttributes view))) = OwnDescriptor config"
  shows "render plugin jsonParse view =
     (mountRoot view
        (wrapWithProviders plugin
           (createElement (component config)
              (fst (finalProps (traitsMap (normalizedComponents plugin)) jsonParse
                      (toComponentAttributes (modelAttributes view)) (defaultProps config)
                      (mapProps config))))
           (selectedName plugin (toComponentAttributes (modelAttributes view)))),
      snd (finalProps (traitsMap (normalizedComponents plugin)) jsonParse
             (toComponentAttributes (modelAttributes view)) (defaultProps config)
             (mapProps config)))"
  using assms by (simp add: render_def renderConfig_def Let_def)

lemma render_cases:
  "fst (render plugin jsonParse view) = view \<or>
   (\<exists>element. fst (render plugin jsonParse view) =
      mountRoot view (wrapWithProviders plugin element
        (selectedName plugin (toComponentAttributes (modelAttributes view)))))"
  by (cases "lookupDescriptor (normalizedComponents plugin)
        (selectedName plugin (toComponentAttributes (modelAttributes view)))")
    (auto simp: render_def renderConfig_def Let_def)

subsection \<open>The provider composer\<close>

lemma reduceRightFrom_fold:
  "k \<le> length xs \<Longrightarrow> reduceRightFrom f xs k acc = fold (\<lambda>x a. f a x) (rev (take k xs)) acc"
proof (induction k arbitrary: acc)
  case 0
  then show ?case by simp
next
  case (Suc k)
  then have "take (Suc k) xs = take k xs @ [xs ! k]"
    by (simp add: take_Suc_conv_app_nth)
  with Suc show ?case by simp
qed

lemma reduceRight_foldr: "reduceRight f xs init = foldr (\<lambda>x a. f a x) xs init"
  by (simp add: reduceRight_def reduceRightFrom_fold foldr_conv_fold)

lemma reduceRight_Cons: "reduceRight f (x # xs) init = f (reduceRight f xs init) x"
  by (simp add: reduceRight_foldr)

lemma reduceRight_Nil: "reduceRight f [] init = init"
  by (simp add: reduceRight_def)

lemma reduceRight_spec_nest: "reduceRight wrapInProvider configs element = spec_nest configs element"
  by (induction configs) (simp_all add: reduceRight_Nil reduceRight_Cons)

lemma createProviderWrapper_spec:
  "createProviderWrapper options = spec_applyStrategy (spec_strategy options)"
proof (intro ext)
  fix element componentName
  show "createProviderWrapper options element componentName =
      spec_applyStrategy (spec_strategy options) element componentName"
  proof (cases "wrapComponent options")
    case (Some wrap)
    then show ?thesis by (simp add: createProviderWrapper_def spec_strategy_def)
  next
    case None
    show ?thesis
    proof (cases "providers options")
      case noList: None
      with None show ?thesis
        by (cases "Provider options")
          (simp_all add: createProviderWrapper_def spec_strategy_def wrapInProvider_def)
    next
      case (Some configs)
      show ?thesis
      proof (cases configs)
        case Nil
        with None Some show ?thesis
          by (cases "Provider options")
            (simp_all add: createProviderWrapper_def spec_strategy_def wrapInProvider_def)
      next
        case (Cons p ps)
        with None Some show ?thesis
          by (simp add: createProviderWrapper_def spec_strategy_def reduceRight_spec_nest)
      qed
    qed
  qed
qed

subsection \<open>The trait merge and the trait map\<close>

lemma pushTraits_Cons:
  "pushTraits (t # ts) base =
     pushTraits ts (if traitName t \<in> traitName ` set base then base else base @ [t])"
proof -
  have "find (\<lambda>u. traitName u = traitName t) base = None \<longleftrightarrow>
      traitName t \<notin> traitName ` set base"
    by (force simp: find_None_iff image_iff)
  then show ?thesis
    by (simp add: pushTraits_def)
qed

lemma pushTraits_Nil: "pushTraits [] base = base"
  by (simp add: pushTraits_def)

lemma pushTraits_firstByName:
  "pushTraits ts base =
     base @ spec_firstByName (filter (\<lambda>t. traitName t \<notin> traitName ` set base) ts)"
proof (induction ts arbitrary: base)
  case Nil
  then show ?case by (simp add: pushTraits_Nil)
next
  case (Cons t ts)
  show ?case
  proof (cases "traitName t \<in> traitName ` set base")
    case True
    with Cons.IH [of base] show ?thesis by (simp add: pushTraits_Cons)
  next
    case False
    have "filter (\<lambda>u. traitName u \<notin> traitName ` set (base @ [t])) ts =
        filter (\<lambda>u. traitName u \<noteq> traitName t) (filter (\<lambda>u. traitName u \<notin> traitName ` set base) ts)"
      by (induction ts) auto
    with False Cons.IH [of "base @ [t]"] show ?thesis by (simp add: pushTraits_Cons)
  qed
qed

lemma pushTraits_append: "pushTraits (ts @ us) base = pushTraits us (pushTraits ts base)"
  by (simp add: pushTraits_def)

lemma baseTraits_fold:
  "fold (\<lambda>config base. case traits config of Some ts \<Rightarrow> pushTraits ts base | None \<Rightarrow> base)
     configs base =
   pushTraits (concat (map (\<lambda>config. case traits config of Some ts \<Rightarrow> ts | None \<Rightarrow> []) configs))
     base"
proof (induction configs arbitrary: base)
  case Nil
  then show ?case by (simp add: pushTraits_Nil)
next
  case (Cons config configs)
  show ?case
  proof (cases "traits config")
    case None
    then show ?thesis by (simp add: Cons.IH)
  next
    case (Some ts)
    then show ?thesis by (simp add: Cons.IH pushTraits_append)
  qed
qed

lemma baseTraits_spec: "baseTraits normalized = spec_mergedTraits normalized"
proof -
  have "baseTraits normalized = pushTraits (allTraits normalized) [selectorTrait (objKeys normalized)]"
    by (simp add: baseTraits_def baseTraits_fold allTraits_def)
  then show ?thesis
    by (simp add: pushTraits_firstByName spec_mergedTraits_def selectorTrait_def)
qed

lemma set_firstByName: "traitName ` set (spec_firstByName ts) = traitName ` set ts"
proof (induction ts rule: spec_firstByName.induct)
  case 1
  then show ?case by simp
next
  case (2 t ts)
  then show ?case by auto
qed

lemma distinct_firstByName: "distinct (map traitName (spec_firstByName ts))"
proof (induction ts rule: spec_firstByName.induct)
  case 1
  then show ?case by simp
next
  case (2 t ts)
  have "traitName t \<notin> traitName ` set (spec_firstByName (filter (\<lambda>u. traitName u \<noteq> traitName t) ts))"
    by (auto simp: set_firstByName)
  with 2 show ?case by simp
qed

lemma find_filter_other:
  "n \<noteq> m \<Longrightarrow> find (\<lambda>t. traitName t = n) (filter (\<lambda>u. traitName u \<noteq> m) ts) =
     find (\<lambda>t. traitName t = n) ts"
  by (induction ts) auto

lemma find_firstByName:
  "find (\<lambda>t. traitName t = n) (spec_firstByName ts) = find (\<lambda>t. traitName t = n) ts"
proof (induction ts rule: spec_firstByName.induct)
  case 1
  then show ?case by simp
next
  case (2 t ts)
  then show ?case by (simp add: find_filter_other)
qed

lemma traitsMap_fold:
  "distinct (map traitName ts) \<Longrightarrow>
   fold (\<lambda>trait m. if traitName trait \<noteq> [] then m(traitName trait \<mapsto> trait) else m) ts m k =
     (if k \<noteq> [] \<and> k \<in> traitName ` set ts then find (\<lambda>t. traitName t = k) ts else m k)"
proof (induction ts arbitrary: m)
  case Nil
  then show ?case by simp
next
  case (Cons t ts)
  from Cons.prems have d: "distinct (map traitName ts)" and fresh: "traitName t \<notin> traitName ` set ts"
    by auto
  show ?case
    using Cons.IH [OF d, of "if traitName t \<noteq> [] then m(traitName t \<mapsto> t) else m"] fresh
    by auto
qed

lemma find_absent: "k \<notin> traitName ` set ts \<Longrightarrow> find (\<lambda>t. traitName t = k) ts = None"
  by (force simp: find_None_iff image_iff)

lemma traitsMap_find:
  "traitsMap normalized k =
     (if k = [] then None
      else find (\<lambda>t. traitName t = k) (selectorTrait (objKeys normalized) # allTraits normalized))"
proof -
  have d: "distinct (map traitName (baseTraits normalized))"
    by (simp add: baseTraits_spec spec_mergedTraits_def distinct_firstByName del: spec_firstByName.simps)
  have f: "find (\<lambda>t. traitName t = k) (baseTraits normalized) =
      find (\<lambda>t. traitName t = k) (selectorTrait (objKeys normalized) # allTraits normalized)"
    by (simp add: baseTraits_spec spec_mergedTraits_def find_firstByName del: spec_firstByName.simps)
  show ?thesis
    unfolding traitsMap_def traitsMap_fold [OF d] f [symmetric]
    by (simp add: find_absent)
qed

subsection \<open>Resolution of the descriptor and the no-op render\<close>




subsection \<open>The reserved keys\<close>

text \<open>
  Counterexample to C2 as stated. The descriptor is the one the repository's own factory
  \<open>createJsonComponentConfig\<close> builds, so it has a custom \<open>mapProps\<close>. The properties handed
  to the component contain both reserved keys, \<open>data-gjs-type\<close> and \<open>component\<close>.
\<close>

theorem reserved_keys_reach_custom_mapper_counterexample:
  "viewRoot (fst (render (createReactComponentsPlugin chartOptions) demoJsonParse
      (viewWith [(''data-gjs-type'', JStr ''react-comp''), (''component'', JStr ''Chart''),
                 (''data'', JStr ''[1]'')]))) =
     Some [JElement (ComponentType ''ChartComponent'')
             [(''data-gjs-type'', JStr ''react-comp''), (''component'', JStr ''Chart''),
              (''data'', JArray [JNum 1])]]"
  by (simp add: run_defs chartOptions_def createJsonComponentConfig_def parseJsonTrait_def)

text \<open>
  C2, amended. In the default mapping path (no custom \<open>mapProps\<close>), for every attribute map
  and descriptor, neither reserved key is taken from the attributes: at a reserved key the
  properties hold exactly what \<open>defaultProps\<close> seeded there, so a reserved key appears in
  the properties only if \<open>defaultProps\<close> itself supplies it. (With a custom \<open>mapProps\<close>
  the properties are what the mapper returns on attributes that still hold both keys.)
\<close>

theorem reserved_keys_not_taken_from_attributes:
  assumes "key = ''component'' \<or> key = ''data-gjs-type''"
  shows "map_of (fst (finalProps tmap jsonParse attrs dprops None)) key =
           map_of (seedDefaults dprops) key \<and>
         (key \<in> set (objKeys (fst (finalProps tmap jsonParse attrs dprops None))) \<longleftrightarrow>
          key \<in> set (objKeys (seedDefaults dprops)))"
proof -
  from assms have "overlayValue tmap jsonParse attrs key = None"
    by (auto simp: overlayValue_def)
  then have "map_of (fst (finalProps tmap jsonParse attrs dprops None)) key =
      map_of (seedDefaults dprops) key"
    by (simp add: finalProps_def map_of_overlayAttributes)
  then show ?thesis
    by (simp add: keys_iff_map_of)
qed

text \<open>
  The amended C2 on a node with both reserved attributes and no \<open>defaultProps\<close>: the key
  \<open>component\<close> is not among the properties.
\<close>

theorem reserved_keys_not_taken_from_attributes_witness:
  "''component'' \<notin> set (objKeys (fst (finalProps Map.empty demoJsonParse
      [(''data-gjs-type'', JStr ''react-comp''), (''component'', JStr ''Hero''),
       (''title'', JStr ''Hi'')] None None)))"
proof -
  have reserved: "''component'' = ''component'' \<or> ''component'' = ''data-gjs-type''"
    by simp
  have "''component'' \<notin> set (objKeys (seedDefaults (None :: string jsobject option)))"
    by (simp add: seedDefaults_def objKeys_def)
  then show ?thesis
    using reserved_keys_not_taken_from_attributes [OF reserved, where tmap = Map.empty
        and jsonParse = demoJsonParse and dprops = None
        and attrs = "[(''data-gjs-type'', JStr ''react-comp''), (''component'', JStr ''Hero''),
          (''title'', JStr ''Hi'')]", THEN conjunct2]
    by blast
qed

subsection \<open>The wrapper mapper\<close>

text \<open>
  C3 says that in the wrapper mapper an empty-string attribute never overrides a default.
  The code at the defaults \<open>{x: 1}\<close> and the attributes \<open>{x: ''}\<close>: the wrapper mapper
  returns \<open>{uiComponent: {x: ''}}\<close>, the empty string in place of the default, and not
  the \<open>{uiComponent: {x: 1}}\<close> that C3 states.
\<close>

theorem wrapper_mapper_empty_string_overrides:
  "createWrapperMapper ''uiComponent'' [(''x'', JNum 1)] [(''x'', JStr [])] =
     [(''uiComponent'', JObject [(''x'', JStr [] :: unit jsvalue)])] \<and>
   createWrapperMapper ''uiComponent'' [(''x'', JNum 1)] [(''x'', JStr [])] \<noteq>
     [(''uiComponent'', JObject [(''x'', JNum 1 :: unit jsvalue)])]"
  by (simp add: createWrapperMapper_def typedWrapped_def objectAssign_def objKeys_def objGet_def
        objSet_def)

text \<open>
  What the wrapper mapper computes in general. For every wrapper key, defaults object
  and attribute map it returns the merged object nested one level under the wrapper key
  (an assignment to the key \<open>__proto__\<close> creates no property). In the merged object an
  attribute wins over a default unless its value is \<open>undefined\<close> or \<open>null\<close>; every other
  key has its default, if any. The two instances C3 gives hold:
  \<open>wrapperMapper('uiComponent', {x: 1})({y: 2}) = {uiComponent: {x: 1, y: 2}}\<close> and
  \<open>wrapperMapper('uiComponent', {x: 1})({x: 2}) = {uiComponent: {x: 2}}\<close>.
\<close>

theorem wrapper_mapper_nests_merged:
  "createWrapperMapper wrapperKey defaults attrs =
     (if wrapperKey = ''__proto__'' then []
      else [(wrapperKey, JObject (typedWrapped defaults attrs))]) \<and>
   (\<forall>k. map_of (typedWrapped defaults attrs) k =
      (if k = ''__proto__'' then None
       else if objGet attrs k \<noteq> JUndefined \<and> objGet attrs k \<noteq> JNull then Some (objGet attrs k)
       else map_of defaults k)) \<and>
   createWrapperMapper ''uiComponent'' [(''x'', JNum 1)] [(''y'', JNum 2)] =
     [(''uiComponent'', JObject [(''x'', JNum 1), (''y'', JNum 2)])] \<and>
   createWrapperMapper ''uiComponent'' [(''x'', JNum 1)] [(''x'', JNum 2)] =
     [(''uiComponent'', JObject [(''x'', JNum 2)])]"
proof (intro conjI allI)
  show "createWrapperMapper wrapperKey defaults attrs =
     (if wrapperKey = ''__proto__'' then []
      else [(wrapperKey, JObject (typedWrapped defaults attrs))])"
    by (simp add: createWrapperMapper_def objSet_def)
next
  fix k
  show "map_of (typedWrapped defaults attrs) k =
      (if k = ''__proto__'' then None
       else if objGet attrs k \<noteq> JUndefined \<and> objGet attrs k \<noteq> JNull then Some (objGet attrs k)
       else map_of defaults k)"
    by (rule map_of_typedWrapped)
next
  show "createWrapperMapper ''uiComponent'' [(''x'', JNum 1)] [(''y'', JNum 2)] =
     [(''uiComponent'', JObject [(''x'', JNum 1), (''y'', JNum 2)])]"
    by (simp add: createWrapperMapper_def typedWrapped_def objectAssign_def objKeys_def
          objGet_def objSet_def)
next
  show "createWrapperMapper ''uiComponent'' [(''x'', JNum 1)] [(''x'', JNum 2)] =
     [(''uiComponent'', JObject [(''x'', JNum 2)])]"
    by (simp add: createWrapperMapper_def typedWrapped_def objectAssign_def objKeys_def
          objGet_def objSet_def)
qed

text \<open>
  The same on the defaults \<open>{x: 1}\<close> and the attributes \<open>{x: null, y: 'b'}\<close>: the
  \<open>null\<close> attribute leaves the default of \<open>x\<close>, and \<open>y\<close> is taken from the attributes.
\<close>

theorem wrapper_mapper_nests_merged_witness:
  "createWrapperMapper ''config'' [(''x'', JNum 1)] [(''x'', JNull), (''y'', JStr ''b'')] =
     [(''config'',
       JObject (typedWrapped [(''x'', JNum 1)] [(''x'', JNull), (''y'', JStr ''b'' :: string jsvalue)]))] \<and>
   map_of (typedWrapped [(''x'', JNum 1)] [(''x'', JNull), (''y'', JStr ''b'' :: string jsvalue)]) ''x'' =
     Some (JNum 1) \<and>
   map_of (typedWrapped [(''x'', JNum 1)] [(''x'', JNull), (''y'', JStr ''b'' :: string jsvalue)]) ''y'' =
     Some (JStr ''b'')"
proof -
  let ?defaults = "[(''x'', JNum 1 :: string jsvalue)]"
  let ?attrs = "[(''x'', JNull), (''y'', JStr ''b'' :: string jsvalue)]"
  note inst = wrapper_mapper_nests_merged [where wrapperKey = "''config''" and defaults = ?defaults
      and attrs = ?attrs]
  have nested: "createWrapperMapper ''config'' ?defaults ?attrs =
      [(''config'', JObject (typedWrapped ?defaults ?attrs))]"
    using inst [THEN conjunct1] by simp
  have x: "map_of (typedWrapped ?defaults ?attrs) ''x'' = Some (JNum 1)"
    using inst [THEN conjunct2, THEN conjunct1, rule_format, of "''x''"] by (simp add: objGet_def)
  have y: "map_of (typedWrapped ?defaults ?attrs) ''y'' = Some (JStr ''b'')"
    using inst [THEN conjunct2, THEN conjunct1, rule_format, of "''y''"] by (simp add: objGet_def)
  from nested x y show ?thesis by blast
qed

subsection \<open>Empty-string attributes in the default path\<close>

text \<open>
  C4. In the default mapping path (no custom \<open>mapProps\<close>) an attribute whose value is the
  empty string is treated as absent: at its key the mapped properties hold exactly what
  \<open>defaultProps\<close> seeded there, so it never overrides a default. The helper
  \<open>mergeDefaults\<close> does the same. Given the defaults \<open>{a: 1}\<close> and the attributes
  \<open>{a: ''}\<close>, both give \<open>{a: 1}\<close>, and the default path logs nothing.
\<close>

theorem empty_string_attribute_keeps_default:
  "(objGet attrs k = JStr [] \<longrightarrow>
      map_of (fst (finalProps tmap jsonParse attrs dprops None)) k = map_of (seedDefaults dprops) k) \<and>
   (objGet attrs k = JStr [] \<longrightarrow> map_of (mergeDefaults defaults attrs) k = map_of defaults k) \<and>
   finalProps tmap jsonParse [(''a'', JStr [])] (Some [(''a'', JNum 1)]) None = ([(''a'', JNum 1)], []) \<and>
   mergeDefaults [(''a'', JNum 1)] [(''a'', JStr [])] = [(''a'', JNum 1)]"
proof (intro conjI impI)
  assume "objGet attrs k = JStr []"
  then have "overlayValue tmap jsonParse attrs k = None"
    by (simp add: overlayValue_def)
  then show "map_of (fst (finalProps tmap jsonParse attrs dprops None)) k =
      map_of (seedDefaults dprops) k"
    by (simp add: finalProps_def map_of_overlayAttributes)
next
  assume "objGet attrs k = JStr []"
  then show "map_of (mergeDefaults defaults attrs) k = map_of defaults k"
    by (simp add: mergeDefaults_assignEach map_of_assignEach)
next
  have seed: "seedDefaults (Some [(''a'', JNum 1)]) = [(''a'', JNum 1 :: 'e jsvalue)]"
    by (simp add: seedDefaults_def objKeys_def objGet_def objSet_def)
  show "finalProps tmap jsonParse [(''a'', JStr [])] (Some [(''a'', JNum 1)]) None =
      ([(''a'', JNum 1)], [])"
    by (simp add: finalProps_def overlayAttributes_def overlayAttribute_def seed objKeys_def
          objGet_def)
next
  show "mergeDefaults [(''a'', JNum 1)] [(''a'', JStr [])] = [(''a'', JNum 1)]"
    by (simp add: mergeDefaults_def objKeys_def objGet_def)
qed

text \<open>
  C4 on the defaults \<open>{a: 1}\<close> and the attributes \<open>{a: '', b: 'x'}\<close>: the property
  \<open>a\<close> is the default \<open>1\<close> in the default path and in \<open>mergeDefaults\<close>.
\<close>

theorem empty_string_attribute_keeps_default_witness:
  "objGet [(''a'', JStr []), (''b'', JStr ''x'' :: string jsvalue)] ''a'' = JStr [] \<and>
   map_of (fst (finalProps Map.empty demoJsonParse [(''a'', JStr []), (''b'', JStr ''x'')]
      (Some [(''a'', JNum 1)]) None)) ''a'' = Some (JNum 1) \<and>
   map_of (mergeDefaults [(''a'', JNum 1)] [(''a'', JStr []), (''b'', JStr ''x'' :: string jsvalue)]) ''a'' =
     Some (JNum 1)"
proof -
  let ?attrs = "[(''a'', JStr []), (''b'', JStr ''x'' :: string jsvalue)]"
  let ?defaults = "[(''a'', JNum 1 :: string jsvalue)]"
  note inst = empty_string_attribute_keeps_default [where k = "''a''" and tmap = Map.empty
      and jsonParse = demoJsonParse and dprops = "Some ?defaults" and defaults = ?defaults
      and attrs = ?attrs]
  have cleared: "objGet ?attrs ''a'' = JStr []"
    by (simp add: objGet_def)
  have seeded: "map_of (seedDefaults (Some ?defaults)) ''a'' = Some (JNum 1)"
    by (simp add: seedDefaults_def objKeys_def objGet_def objSet_def)
  have rendered: "map_of (fst (finalProps Map.empty demoJsonParse ?attrs (Some ?defaults) None)) ''a'' =
      Some (JNum 1)"
    using inst [THEN conjunct1, rule_format, OF cleared] seeded by simp
  have merged: "map_of (mergeDefaults ?defaults ?attrs) ''a'' = Some (JNum 1)"
    using inst [THEN conjunct2, THEN conjunct1, rule_format, OF cleared] by simp
  from cleared rendered merged show ?thesis by blast
qed

subsection \<open>Custom mappers\<close>

text \<open>
  C5. For every descriptor whose \<open>mapProps\<close> is present and every attribute map, the mapped
  properties are exactly what \<open>mapProps\<close> returns on the attributes, whatever
  \<open>defaultProps\<close> and the trait map are; and when render finds such a descriptor, the
  element it mounts carries exactly those properties. The attributes the mapper receives
  are the node's attributes restricted to strings, numbers, booleans, \<open>undefined\<close> and
  \<open>null\<close>, which is every attribute of a well-formed attribute map.
\<close>

theorem custom_mapper_determines_props:
  "fst (finalProps tmap jsonParse attrs dprops (Some f)) = fst (f attrs) \<and>
   (lookupDescriptor (normalizedComponents plugin)
       (selectedName plugin (toComponentAttributes (modelAttributes view))) = OwnDescriptor config \<longrightarrow>
    mapProps config = Some f \<longrightarrow>
    fst (render plugin jsonParse view) =
      mountRoot view
        (wrapWithProviders plugin
           (createElement (component config) (fst (f (toComponentAttributes (modelAttributes view)))))
           (selectedName plugin (toComponentAttributes (modelAttributes view))))) \<and>
   (distinct (objKeys raw) \<longrightarrow> ''__proto__'' \<notin> set (objKeys raw) \<longrightarrow>
    (\<forall>v \<in> snd ` set raw. isAttributeValue v) \<longrightarrow> toComponentAttributes raw = raw)"
proof (intro conjI impI)
  show mapped: "fst (finalProps tmap jsonParse attrs dprops (Some f)) = fst (f attrs)"
    for tmap attrs dprops
    by (simp add: finalProps_def Let_def)
  assume "lookupDescriptor (normalizedComponents plugin)
       (selectedName plugin (toComponentAttributes (modelAttributes view))) = OwnDescriptor config"
    and "mapProps config = Some f"
  then show "fst (render plugin jsonParse view) =
      mountRoot view
        (wrapWithProviders plugin
           (createElement (component config) (fst (f (toComponentAttributes (modelAttributes view)))))
           (selectedName plugin (toComponentAttributes (modelAttributes view))))"
    by (simp add: render_own mapped)
next
  assume "distinct (objKeys raw)" "''__proto__'' \<notin> set (objKeys raw)"
    "\<forall>v \<in> snd ` set raw. isAttributeValue v"
  then show "toComponentAttributes raw = raw"
    by (rule toComponentAttributes_id)
qed

text \<open>
  C5 on a descriptor whose mapper nests all attributes under \<open>config\<close> and whose
  \<open>defaultProps\<close> is \<open>{title: 'Default'}\<close>: the mounted element has the mapper's result
  alone.
\<close>

theorem custom_mapper_determines_props_witness:
  "lookupDescriptor (normalizedComponents (createReactComponentsPlugin panelOptions))
       (selectedName (createReactComponentsPlugin panelOptions)
          (toComponentAttributes (modelAttributes (viewWith [(''title'', JStr ''T'')])))) =
     OwnDescriptor panelConfig \<and>
   mapProps panelConfig = Some nestUnderConfig \<and>
   viewRoot (fst (render (createReactComponentsPlugin panelOptions) demoJsonParse
      (viewWith [(''title'', JStr ''T'')]))) =
     Some [JElement (ComponentType ''PanelComponent'')
             [(''config'', JObject [(''title'', JStr ''T'')])]] \<and>
   toComponentAttributes [(''title'', JStr ''T'' :: string jsvalue)] = [(''title'', JStr ''T'')]"
proof -
  let ?plugin = "createReactComponentsPlugin panelOptions"
  let ?view = "viewWith [(''title'', JStr ''T'')]"
  let ?raw = "[(''title'', JStr ''T'' :: string jsvalue)]"
  note inst = custom_mapper_determines_props [where plugin = ?plugin and view = ?view
      and config = panelConfig and f = nestUnderConfig and jsonParse = demoJsonParse
      and raw = ?raw]
  have wellformed: "distinct (objKeys ?raw)" "''__proto__'' \<notin> set (objKeys ?raw)"
    "\<forall>v \<in> snd ` set ?raw. isAttributeValue v"
    by (simp_all add: objKeys_def)
  have attrs: "toComponentAttributes ?raw = ?raw"
    using inst [THEN conjunct2, THEN conjunct2] wellformed by blast
  have raw: "modelAttributes ?view = ?raw"
    by (simp add: viewWith_def)
  have found: "lookupDescriptor (normalizedComponents ?plugin)
       (selectedName ?plugin (toComponentAttributes (modelAttributes ?view))) =
     OwnDescriptor panelConfig"
    unfolding raw attrs
    by (simp add: lookupDescriptor_def selectedName_def createReactComponentsPlugin_def
          panelOptions_def pluginOptions_def normalizeComponents_def objSet_def objGet_def
          objKeys_def propertyKey_def)
  have mapper: "mapProps panelConfig = Some nestUnderConfig"
    by (simp add: panelConfig_def)
  have "fst (render ?plugin demoJsonParse ?view) =
      mountRoot ?view
        (wrapWithProviders ?plugin
           (createElement (component panelConfig)
              (fst (nestUnderConfig (toComponentAttributes (modelAttributes ?view)))))
           (selectedName ?plugin (toComponentAttributes (modelAttributes ?view))))"
    using inst [THEN conjunct2, THEN conjunct1, rule_format, OF found mapper] .
  then have mounted: "viewRoot (fst (render ?plugin demoJsonParse ?view)) =
     Some [JElement (ComponentType ''PanelComponent'') [(''config'', JObject ?raw)]]"
    unfolding raw attrs
    by (simp add: nestUnderConfig_def mountRoot_def viewWith_def createReactComponentsPlugin_def
          createProviderWrapper_def panelOptions_def pluginOptions_def createElement_def
          panelConfig_def)
  from found mapper mounted attrs show ?thesis by blast
qed

subsection \<open>Provider nesting order\<close>

text \<open>
  C6. For every ordered provider list and element, the composed wrapper folds the list from
  the right: the empty list leaves the element, and the first config of a list wraps the
  result of wrapping with the rest, so the last config wraps the element directly and the
  first is outermost. For \<open>[A, B]\<close> and \<open>E\<close> the result is \<open>A(children = B(children = E))\<close>.
\<close>

theorem providers_nest_first_outermost:
  "reduceRight wrapInProvider [] element = element \<and>
   reduceRight wrapInProvider (outer # inner) element =
     wrapInProvider (reduceRight wrapInProvider inner element) outer \<and>
   (wrapComponent options = None \<longrightarrow> providers options = Some (outer # inner) \<longrightarrow>
      createProviderWrapper options element componentName =
        wrapInProvider (reduceRight wrapInProvider inner element) outer) \<and>
   (wrapComponent options = None \<longrightarrow> providers options = Some [A, B] \<longrightarrow>
      createProviderWrapper options element componentName =
        wrapInProvider (wrapInProvider element B) A) \<and>
   (wrapComponent options = None \<longrightarrow> providers options = Some [A, B] \<longrightarrow>
    pc_props A = None \<longrightarrow> pc_props B = None \<longrightarrow>
      createProviderWrapper options element componentName =
        JElement (ComponentType (pc_component A))
          [(''children'',
            JElement (ComponentType (pc_component B)) [(''children'', element)])])"
proof -
  have list: "createProviderWrapper options element componentName =
      reduceRight wrapInProvider (p # ps) element"
    if "wrapComponent options = None" and "providers options = Some (p # ps)" for p ps
    using that by (simp add: createProviderWrapper_def)
  have two: "reduceRight wrapInProvider [A, B] element = wrapInProvider (wrapInProvider element B) A"
    by (simp only: reduceRight_Cons reduceRight_Nil)
  have bare: "wrapInProvider (wrapInProvider element B) A =
      JElement (ComponentType (pc_component A))
        [(''children'', JElement (ComponentType (pc_component B)) [(''children'', element)])]"
    if "pc_props A = None" and "pc_props B = None"
    using that by (simp add: wrapInProvider_def createElement_def)
  show ?thesis
    by (simp add: list two bare reduceRight_Cons reduceRight_Nil)
qed

text \<open>
  C6 on the list \<open>[StoreProvider {store}, ThemeProvider]\<close>: the store provider is
  outermost and keeps its own properties beside \<open>children\<close>.
\<close>

theorem providers_nest_first_outermost_witness:
  "wrapComponent providerOptions = None \<and> providers providerOptions = Some [providerA, providerB] \<and>
   createProviderWrapper providerOptions (JElement (ComponentType ''HeroComponent'') []) (Some ''Hero'') =
     JElement (ComponentType ''StoreProvider'')
       [(''store'', JStr ''s''),
        (''children'',
         JElement (ComponentType ''ThemeProvider'')
           [(''children'', JElement (ComponentType ''HeroComponent'') [])])]"
proof -
  let ?hero = "JElement (ComponentType ''HeroComponent'') [] :: string jsvalue"
  have custom: "wrapComponent providerOptions = None"
    and list: "providers providerOptions = Some [providerA, providerB]"
    by (simp_all add: providerOptions_def)
  have "createProviderWrapper providerOptions ?hero (Some ''Hero'') =
      wrapInProvider (wrapInProvider ?hero providerB) providerA"
    using providers_nest_first_outermost [where options = providerOptions and A = providerA
        and B = providerB and element = ?hero and componentName = "Some ''Hero''",
        THEN conjunct2, THEN conjunct2, THEN conjunct2, THEN conjunct1, rule_format,
        OF custom list] .
  then have "createProviderWrapper providerOptions ?hero (Some ''Hero'') =
     JElement (ComponentType ''StoreProvider'')
       [(''store'', JStr ''s''),
        (''children'', JElement (ComponentType ''ThemeProvider'') [(''children'', ?hero)])]"
    by (simp add: providerA_def providerB_def wrapInProvider_def createElement_def)
  with custom list show ?thesis by blast
qed

subsection \<open>The wrapping strategy\<close>

text \<open>
  C7. For every plugin configuration the wrapper \<open>createProviderWrapper\<close> builds is the one
  strategy the specification's priority order selects (custom wrapper, else non-empty
  provider list, else single provider, else identity); it is fixed when the plugin is
  configured, and every render that mounts anything mounts an element wrapped by that
  same strategy, whatever the node's attributes are.
\<close>

theorem one_wrapping_strategy_by_priority:
  "createProviderWrapper options = spec_applyStrategy (spec_strategy options) \<and>
   wrapWithProviders (createReactComponentsPlugin options) =
     spec_applyStrategy (spec_strategy options) \<and>
   (fst (render (createReactComponentsPlugin options) jsonParse view) = view \<or>
    (\<exists>element.
       fst (render (createReactComponentsPlugin options) jsonParse view) =
         mountRoot view
           (spec_applyStrategy (spec_strategy options) element
              (selectedName (createReactComponentsPlugin options)
                 (toComponentAttributes (modelAttributes view))))))"
proof -
  have w: "wrapWithProviders (createReactComponentsPlugin options) =
      spec_applyStrategy (spec_strategy options)"
    by (simp add: createReactComponentsPlugin_def createProviderWrapper_spec)
  show ?thesis
    using render_cases [of "createReactComponentsPlugin options" jsonParse view]
    by (simp add: createProviderWrapper_spec w)
qed

text \<open>
  C7 on a configuration with both a provider list and a single \<open>Provider\<close>: the list is
  the strategy selected.
\<close>

theorem one_wrapping_strategy_by_priority_witness:
  "spec_strategy providerOptions = ProviderList [providerA, providerB] \<and>
   createProviderWrapper providerOptions (JElement (ComponentType ''HeroComponent'') []) (Some ''Hero'') =
     spec_nest [providerA, providerB] (JElement (ComponentType ''HeroComponent'') [])"
proof -
  have chosen: "spec_strategy providerOptions = ProviderList [providerA, providerB]"
    by (simp add: spec_strategy_def providerOptions_def)
  have "createProviderWrapper providerOptions = spec_applyStrategy (spec_strategy providerOptions)"
    using one_wrapping_strategy_by_priority [where options = providerOptions, THEN conjunct1] .
  with chosen show ?thesis by simp
qed

subsection \<open>Malformed JSON\<close>

text \<open>
  C8. For every text that \<open>JSON.parse\<close> rejects, \<open>parseJsonTrait\<close> returns the original
  string and writes one warning; nothing is thrown. The decoding step of render does the
  same: wherever it assigns an attribute (a key that is not reserved, a value that is not
  empty), it assigns the original string, with one warning when the key is a JSON trait.
\<close>

theorem malformed_json_keeps_text:
  assumes "jsonParse s = None"
  shows "parseJsonTrait jsonParse (JStr s) = (JStr s, [(''Failed to parse JSON trait:'', JStr s)]) \<and>
    (objGet attrs key = JStr s \<longrightarrow> key \<noteq> ''component'' \<longrightarrow> key \<noteq> ''data-gjs-type'' \<longrightarrow> s \<noteq> [] \<longrightarrow>
       overlayAttribute tmap jsonParse attrs key (rawProps, warned) =
         (objSet key (JStr s) rawProps,
          if (\<exists>trait. tmap key = Some trait \<and> traitType trait = Json)
          then warned @ [(''Failed to parse JSON trait '' @ key @ '':'', JStr s)]
          else warned))"
  using assms
  by (auto simp: parseJsonTrait_def overlayAttribute_def Let_def split: option.splits)

text \<open>
  C8 on the malformed text \<open>{oops\<close>, in \<open>parseJsonTrait\<close> and in the decoding step of
  render for a JSON trait \<open>data\<close>.
\<close>

theorem malformed_json_keeps_text_witness:
  "demoJsonParse ''{oops'' = None \<and>
   parseJsonTrait demoJsonParse (JStr ''{oops'') =
     (JStr ''{oops'', [(''Failed to parse JSON trait:'', JStr ''{oops'')]) \<and>
   overlayAttribute [''data'' \<mapsto> JsonTrait ''data'' ''Data'' None] demoJsonParse
       [(''data'', JStr ''{oops'')] ''data'' ([], []) =
     ([(''data'', JStr ''{oops'')], [(''Failed to parse JSON trait data:'', JStr ''{oops'')])"
proof -
  have bad: "demoJsonParse ''{oops'' = None"
    by (simp add: demoJsonParse_def)
  show ?thesis
    using malformed_json_keeps_text [where jsonParse = demoJsonParse and s = "''{oops''"
        and attrs = "[(''data'', JStr ''{oops'')]" and key = "''data''"
        and tmap = "[''data'' \<mapsto> JsonTrait ''data'' ''Data'' None]"
        and rawProps = "[]" and warned = "[]", OF bad]
    by (simp add: bad objGet_def objSet_def)
qed

subsection \<open>The exposed trait list\<close>



subsection \<open>Which attributes are decoded\<close>

text \<open>
  Counterexample to C10 as stated, at two configurations whose only registered trait has
  type \<open>json\<close>, so that it is the first-declared trait of its name. In the first the
  trait has the empty name, and the node has an attribute of that name whose value is the
  valid text \<open>[1]\<close>: the value reaches the component as the string \<open>[1]\<close>, not decoded,
  because a trait with an empty name is never entered into the trait map. In the second
  the trait is named \<open>data-gjs-type\<close>: the attribute of that name is reserved and does not
  reach the component at all.
\<close>

theorem unnamed_json_trait_counterexample:
  "find (\<lambda>t. traitName t = [])
     (allTraits (normalizedComponents (createReactComponentsPlugin unnamedTraitOptions))) =
     Some (JsonTrait [] ''Data'' None) \<and>
   find (\<lambda>t. traitName t = ''data-gjs-type'')
     (allTraits (normalizedComponents (createReactComponentsPlugin markerTraitOptions))) =
     Some (JsonTrait ''data-gjs-type'' ''Marker'' None) \<and>
   demoJsonParse ''[1]'' = Some (JArray [JNum 1]) \<and>
   viewRoot (fst (render (createReactComponentsPlugin unnamedTraitOptions) demoJsonParse
      (viewWith [(''component'', JStr ''Chart''), ([], JStr ''[1]'')]))) =
     Some [JElement (ComponentType ''ChartComponent'') [([], JStr ''[1]'')]] \<and>
   viewRoot (fst (render (createReactComponentsPlugin markerTraitOptions) demoJsonParse
      (viewWith [(''component'', JStr ''Chart''), (''data-gjs-type'', JStr ''[1]'')]))) =
     Some [JElement (ComponentType ''ChartComponent'') []]"
  by (simp add: run_defs unnamedTraitOptions_def markerTraitOptions_def)

text \<open>
  C10, amended. In the default mapping path, for every rendered component, an attribute
  whose name is not empty and not reserved, and whose value is a non-empty string, is
  decoded exactly when the first-declared trait of that name across all registered
  descriptors has type \<open>json\<close>: then the component gets the decoded value (or the
  string as it is, when \<open>JSON.parse\<close> rejects it); when the first-declared trait of
  that name has another type, and when no registered descriptor declares a trait of
  that name, the component gets the string as it is. The trait list of the selected
  descriptor plays no part.
\<close>

theorem json_decoding_follows_merged_trait_map:
  assumes "key \<noteq> []" and "key \<noteq> ''component''" and "key \<noteq> ''data-gjs-type''"
    and "objGet (toComponentAttributes (modelAttributes view)) key = JStr s" and "s \<noteq> []"
    and "lookupDescriptor (normalizedComponents plugin)
           (selectedName plugin (toComponentAttributes (modelAttributes view))) = OwnDescriptor config"
    and "mapProps config = None"
  shows "\<exists>props.
      fst (render plugin jsonParse view) =
        mountRoot view
          (wrapWithProviders plugin (createElement (component config) props)
             (selectedName plugin (toComponentAttributes (modelAttributes view)))) \<and>
      map_of props key =
        Some (case find (\<lambda>t. traitName t = key) (allTraits (normalizedComponents plugin)) of
                Some trait \<Rightarrow>
                  if traitType trait = Json
                  then (case jsonParse s of Some parsed \<Rightarrow> parsed | None \<Rightarrow> JStr s)
                  else JStr s
              | None \<Rightarrow> JStr s)"
proof -
  let ?attrs = "toComponentAttributes (modelAttributes view)"
  let ?tmap = "traitsMap (normalizedComponents plugin)"
  let ?props = "fst (finalProps ?tmap jsonParse ?attrs (defaultProps config) None)"
  let ?first = "find (\<lambda>t. traitName t = key) (allTraits (normalizedComponents plugin))"
  let ?passed = "case ?first of
                   Some trait \<Rightarrow>
                     if traitType trait = Json
                     then (case jsonParse s of Some parsed \<Rightarrow> parsed | None \<Rightarrow> JStr s)
                     else JStr s
                 | None \<Rightarrow> JStr s"
  have attr: "objGet ?attrs key = JStr s"
    by (rule assms(4))
  have own: "key \<noteq> ''__proto__''"
    using attr by (auto simp: objGet_toComponentAttributes)
  have tm: "?tmap key = ?first"
    using assms(1,2) by (simp add: traitsMap_find selectorTrait_def)
  have "overlayValue ?tmap jsonParse ?attrs key = Some ?passed"
  proof (cases ?first)
    case None
    then show ?thesis
      using assms(2,3,5) by (simp add: overlayValue_def attr tm)
  next
    case (Some trait)
    then show ?thesis
      using assms(2,3,5) by (simp add: overlayValue_def attr tm split: option.splits)
  qed
  then have decoded: "map_of ?props key = Some ?passed"
    using own by (simp add: finalProps_def map_of_overlayAttributes)
  have "fst (render plugin jsonParse view) =
      mountRoot view
        (wrapWithProviders plugin (createElement (component config) ?props)
           (selectedName plugin ?attrs))"
    using render_own [OF assms(6), of jsonParse] assms(7) by simp
  with decoded show ?thesis by blast
qed

text \<open>
  The amended C10 on two descriptors: \<open>Chart\<close> declares \<open>data\<close> as \<open>json\<close>, \<open>Card\<close>,
  registered after it, declares \<open>data\<close> as \<open>text\<close>. A node selecting \<open>Card\<close> with the
  attributes \<open>data = [1]\<close> and \<open>id = [1]\<close> gets the decoded array for \<open>data\<close> and,
  \<open>id\<close> being declared by no descriptor, the string \<open>[1]\<close> for \<open>id\<close>.
\<close>

theorem json_decoding_follows_merged_trait_map_witness:
  "(\<exists>props.
      fst (render (createReactComponentsPlugin chartCardOptions) demoJsonParse
         (viewWith [(''component'', JStr ''Card''), (''data'', JStr ''[1]''), (''id'', JStr ''[1]'')])) =
        mountRoot
          (viewWith [(''component'', JStr ''Card''), (''data'', JStr ''[1]''), (''id'', JStr ''[1]'')])
          (JElement (ComponentType ''CardComponent'') props) \<and>
      map_of props ''data'' = Some (JArray [JNum 1])) \<and>
   (\<exists>props.
      fst (render (createReactComponentsPlugin chartCardOptions) demoJsonParse
         (viewWith [(''component'', JStr ''Card''), (''data'', JStr ''[1]''), (''id'', JStr ''[1]'')])) =
        mountRoot
          (viewWith [(''component'', JStr ''Card''), (''data'', JStr ''[1]''), (''id'', JStr ''[1]'')])
          (JElement (ComponentType ''CardComponent'') props) \<and>
      map_of props ''id'' = Some (JStr ''[1]''))"
proof -
  let ?plugin = "createReactComponentsPlugin chartCardOptions"
  let ?view = "viewWith [(''component'', JStr ''Card''), (''data'', JStr ''[1]''),
    (''id'', JStr ''[1]'')]"
  let ?card = "\<lparr>component = ComponentType ''CardComponent'',
     traits = Some [TextTrait ''data'' ''Caption'' None], defaultProps = None,
     mapProps = None\<rparr> :: string ComponentConfig"
  have key: "''data'' \<noteq> []" "''data'' \<noteq> ''component''" "''data'' \<noteq> ''data-gjs-type''"
    "''[1]'' \<noteq> []" "''id'' \<noteq> []" "''id'' \<noteq> ''component''" "''id'' \<noteq> ''data-gjs-type''"
    by simp_all
  have attrs: "toComponentAttributes (modelAttributes ?view) =
      [(''component'', JStr ''Card''), (''data'', JStr ''[1]''), (''id'', JStr ''[1]'')]"
    by (simp add: toComponentAttributes_def viewWith_def objKeys_def objGet_def objSet_def)
  have data: "objGet (toComponentAttributes (modelAttributes ?view)) ''data'' = JStr ''[1]''"
    and ident: "objGet (toComponentAttributes (modelAttributes ?view)) ''id'' = JStr ''[1]''"
    unfolding attrs by (simp_all add: objGet_def)
  have norm: "normalizedComponents ?plugin =
      [(''Chart'', \<lparr>component = ComponentType ''ChartComponent'',
           traits = Some [JsonTrait ''data'' ''Data'' None], defaultProps = None,
           mapProps = None\<rparr>), (''Card'', ?card)]"
    by (simp add: createReactComponentsPlugin_def chartCardOptions_def pluginOptions_def
          normalizeComponents_def objSet_def)
  have first: "find (\<lambda>t. traitName t = ''data'') (allTraits (normalizedComponents ?plugin)) =
      Some (JsonTrait ''data'' ''Data'' None)"
    and undeclared: "find (\<lambda>t. traitName t = ''id'') (allTraits (normalizedComponents ?plugin)) = None"
    by (simp_all add: norm allTraits_def)
  have sel: "selectedName ?plugin (toComponentAttributes (modelAttributes ?view)) = Some ''Card''"
    unfolding attrs by (simp add: selectedName_def objGet_def)
  have found: "lookupDescriptor (normalizedComponents ?plugin)
      (selectedName ?plugin (toComponentAttributes (modelAttributes ?view))) = OwnDescriptor ?card"
    unfolding sel norm by (simp add: lookupDescriptor_def propertyKey_def)
  have dflt: "mapProps ?card = None"
    by simp
  have wrap: "wrapWithProviders ?plugin = (\<lambda>element componentName. element)"
    by (simp add: createReactComponentsPlugin_def createProviderWrapper_def chartCardOptions_def
          pluginOptions_def)
  have declared_case: "\<exists>props.
      fst (render ?plugin demoJsonParse ?view) =
        mountRoot ?view (JElement (ComponentType ''CardComponent'') props) \<and>
      map_of props ''data'' = Some (JArray [JNum 1])"
    using json_decoding_follows_merged_trait_map [where jsonParse = demoJsonParse,
        OF key(1-3) data key(4) found dflt]
    by (simp add: wrap createElement_def demoJsonParse_def first)
  have undeclared_case: "\<exists>props.
      fst (render ?plugin demoJsonParse ?view) =
        mountRoot ?view (JElement (ComponentType ''CardComponent'') props) \<and>
      map_of props ''id'' = Some (JStr ''[1]'')"
    using json_decoding_follows_merged_trait_map [where jsonParse = demoJsonParse,
        OF key(5-7) ident key(4) found dflt]
    by (simp add: wrap createElement_def undeclared)
  from declared_case undeclared_case show ?thesis by blast
qed

end
